theory Spec2Isabelle
  imports Main
begin

section \<open>JavaScript strings\<close>

text \<open>
  The server (\<^verbatim>\<open>server.mjs\<close>, with its helpers of \<^verbatim>\<open>utils.mjs\<close>) works on
  strings throughout. A string is modelled as a \<^typ>\<open>string\<close>, a list of 8-bit
  characters: the request target that Node hands over in \<^verbatim>\<open>request.url\<close> holds one
  character per byte of the request line, and a text decoded from UTF-8 is kept as its
  UTF-8 bytes (see \<open>utf8_text\<close> below), so that two texts are equal exactly when
  their byte lists are. The working directory of the process and the templates of
  the routes are strings of this kind as well.
\<close>

definition startsWith :: "string \<Rightarrow> string \<Rightarrow> bool" where
  "startsWith s p = (take (length p) s = p)"

definition endsWith :: "string \<Rightarrow> string \<Rightarrow> bool" where
  "endsWith s p = (length p \<le> length s \<and> drop (length s - length p) s = p)"

text \<open>\<^verbatim>\<open>s.slice(0, -1)\<close>: the string without its last character.\<close>

definition slice_0_m1 :: "string \<Rightarrow> string" where
  "slice_0_m1 s = butlast s"

text \<open>
  \<^verbatim>\<open>s.replace(pat, rep)\<close> with a string pattern: the first occurrence of \<open>pat\<close>
  is replaced (\<open>rep\<close> holds no \<^verbatim>\<open>$\<close> here).
\<close>

fun replace_str :: "string \<Rightarrow> string \<Rightarrow> string \<Rightarrow> string" where
  "replace_str pat rep [] = (if pat = [] then rep else [])"
| "replace_str pat rep (c # cs) =
     (if startsWith (c # cs) pat then rep @ drop (length pat) (c # cs)
      else c # replace_str pat rep cs)"

definition code :: "char \<Rightarrow> nat" where
  "code c = of_char c"

text \<open>The class \<^verbatim>\<open>\w\<close> of a regular expression without flags: \<^verbatim>\<open>[A-Za-z0-9_]\<close>.\<close>

definition is_word :: "char \<Rightarrow> bool" where
  "is_word c = ((48 \<le> code c \<and> code c \<le> 57) \<or> (65 \<le> code c \<and> code c \<le> 90)
                \<or> code c = 95 \<or> (97 \<le> code c \<and> code c \<le> 122))"

text \<open>The class \<^verbatim>\<open>[\w.]\<close>.\<close>

definition is_word_dot :: "char \<Rightarrow> bool" where
  "is_word_dot c = (is_word c \<or> c = CHR ''.'')"

text \<open>\<^verbatim>\<open>toLowerCase\<close> on characters below 256: A-Z, and the Latin-1 capitals.\<close>

definition lower_char :: "char \<Rightarrow> char" where
  "lower_char c =
     (if (65 \<le> code c \<and> code c \<le> 90) \<or> (192 \<le> code c \<and> code c \<le> 222 \<and> code c \<noteq> 215)
      then char_of (code c + 32) else c)"

definition toLowerCase :: "string \<Rightarrow> string" where
  "toLowerCase s = map lower_char s"

section \<open>Requests and responses\<close>

text \<open>
  Of Node's \<^verbatim>\<open>IncomingMessage\<close> the code reads \<^verbatim>\<open>method\<close>, \<^verbatim>\<open>url\<close> and
  \<^verbatim>\<open>headers.host\<close> (absent when the client sent no Host header). Of the
  \<^verbatim>\<open>ServerResponse\<close> the model records what the code passes to \<^verbatim>\<open>writeHead\<close> and
  \<^verbatim>\<open>end\<close>: the status code, the headers and the body. (The field \<open>method_name\<close> is
  \<^verbatim>\<open>request.method\<close>.)
\<close>

record request =
  method_name :: string
  url :: string
  host :: "string option"

text \<open>
  A header value is a string; \<open>Inherited k\<close> stands for the object that a lookup of
  the key \<open>k\<close> in a plain object finds on \<^verbatim>\<open>Object.prototype\<close>.
\<close>

datatype header_value = Str string | Inherited string

record response =
  status :: nat
  headers :: "(string \<times> header_value) list"
  body :: string

text \<open>A value inside a template literal: \<^verbatim>\<open>undefined\<close> prints as its name.\<close>

definition template_text :: "string option \<Rightarrow> string" where
  "template_text v = (case v of None \<Rightarrow> ''undefined'' | Some s \<Rightarrow> s)"

text \<open>
  \<^verbatim>\<open>response.writeHead(statusCode, headers).end(body)\<close>, on a response to which
  nothing has been written before, as the response is wherever this code writes to
  it. \<^verbatim>\<open>writeHead\<close> turns the status code into a 32-bit integer
  (\<^verbatim>\<open>statusCode |= 0\<close>) and throws \<^verbatim>\<open>ERR_HTTP_INVALID_STATUS_CODE\<close> unless that is
  from 100 to 999; it throws \<^verbatim>\<open>ERR_INVALID_CHAR\<close> when the value of a header holds a
  character other than the tab, the characters from 0x20 to 0x7e and those from 0x80
  on. When it throws, \<^verbatim>\<open>end\<close> is not called and nothing is written (\<open>Inl\<close>, with the
  code of the error).
\<close>

definition to_int32 :: "int \<Rightarrow> int" where
  "to_int32 n = (n + 2147483648) mod 4294967296 - 2147483648"

definition valid_header_char :: "char \<Rightarrow> bool" where
  "valid_header_char c = (code c = 9 \<or> (32 \<le> code c \<and> code c \<le> 126) \<or> 128 \<le> code c)"

fun header_value_ok :: "header_value \<Rightarrow> bool" where
  "header_value_ok (Str v) = list_all valid_header_char v"
| "header_value_ok (Inherited k) = True"

definition writeHead_end ::
    "int \<Rightarrow> (string \<times> header_value) list \<Rightarrow> string \<Rightarrow> string + response" where
  "writeHead_end statusCode hs content =
     (if to_int32 statusCode < 100 \<or> 999 < to_int32 statusCode
      then Inl ''ERR_HTTP_INVALID_STATUS_CODE''
      else if list_all (\<lambda>h. header_value_ok (snd h)) hs
      then Inr \<lparr> status = nat (to_int32 statusCode), headers = hs, body = content \<rparr>
      else Inl ''ERR_INVALID_CHAR'')"

text \<open>
  \<^verbatim>\<open>redirect(request, response, path, statusCode = 302)\<close>; the status code is
  \<open>None\<close> when the caller passes none.
\<close>

definition redirect :: "request \<Rightarrow> string \<Rightarrow> int option \<Rightarrow> string + response" where
  "redirect request path statusCode =
     writeHead_end (case statusCode of None \<Rightarrow> 302 | Some c \<Rightarrow> c)
       [(''Location'', Str (''http://'' @ template_text (host request) @ path))] []"

section \<open>Form bodies\<close>

text \<open>
  \<^verbatim>\<open>Buffer.concat(chunks).toString()\<close> decodes the bytes as UTF-8, each maximal
  ill-formed part becoming U+FFFD. \<open>utf8_text\<close> gives the decoded text as UTF-8
  bytes again: well-formed sequences are kept and U+FFFD is the bytes EF BF BD.
\<close>

definition continuations :: "char \<Rightarrow> nat" where
  "continuations b =
     (if 194 \<le> code b \<and> code b \<le> 223 then 1
      else if 224 \<le> code b \<and> code b \<le> 239 then 2
      else if 240 \<le> code b \<and> code b \<le> 244 then 3
      else 0)"

definition lower_boundary :: "char \<Rightarrow> nat" where
  "lower_boundary b = (if code b = 224 then 160 else if code b = 240 then 144 else 128)"

definition upper_boundary :: "char \<Rightarrow> nat" where
  "upper_boundary b = (if code b = 237 then 159 else if code b = 244 then 143 else 191)"

text \<open>How many of the next \<open>k\<close> bytes continue the sequence.\<close>

fun valid_conts :: "nat \<Rightarrow> nat \<Rightarrow> nat \<Rightarrow> string \<Rightarrow> nat" where
  "valid_conts 0 lo hi bs = 0"
| "valid_conts (Suc k) lo hi [] = 0"
| "valid_conts (Suc k) lo hi (b # bs) =
     (if lo \<le> code b \<and> code b \<le> hi then Suc (valid_conts k 128 191 bs) else 0)"

definition replacement :: string where
  "replacement = [char_of (239 :: nat), char_of (191 :: nat), char_of (189 :: nat)]"

function utf8_text :: "string \<Rightarrow> string" where
  "utf8_text [] = []"
| "utf8_text (b # bs) =
     (if code b < 128 then b # utf8_text bs
      else if continuations b = 0 then replacement @ utf8_text bs
      else
        (let j = valid_conts (continuations b) (lower_boundary b) (upper_boundary b) bs
         in (if j = continuations b then b # take j bs else replacement)
            @ utf8_text (drop j bs)))"
  by pat_completeness auto
termination
  by (relation "measure length") auto

text \<open>
  \<^verbatim>\<open>new URLSearchParams(body)\<close>, as Node's \<^verbatim>\<open>parseParams\<close> reads the text: a leading
  \<^verbatim>\<open>?\<close> is dropped; the text is split at every \<^verbatim>\<open>&\<close>, empty pieces are skipped;
  each piece is split at its first \<^verbatim>\<open>=\<close> into name and value (the value is empty
  when there is none); in both every \<^verbatim>\<open>+\<close> becomes a space, and a name or value in
  which the scan has seen a \<^verbatim>\<open>%\<close> and two hexadecimal digits after it is handed to
  \<^verbatim>\<open>querystring.unescape\<close>.
\<close>

fun split_on :: "char \<Rightarrow> string \<Rightarrow> string list" where
  "split_on d [] = [[]]"
| "split_on d (c # cs) =
     (if c = d then [] # split_on d cs
      else (case split_on d cs of [] \<Rightarrow> [[c]] | x # xs \<Rightarrow> (c # x) # xs))"

definition is_hex :: "char \<Rightarrow> bool" where
  "is_hex c = ((48 \<le> code c \<and> code c \<le> 57) \<or> (65 \<le> code c \<and> code c \<le> 70)
               \<or> (97 \<le> code c \<and> code c \<le> 102))"

text \<open>
  The scan for an escape, with the counter \<^verbatim>\<open>encodeCheck\<close>: a \<^verbatim>\<open>%\<close> sets it to 1, a
  hexadecimal digit after that raises it, at 3 the name or value counts as encoded;
  any other character sets it back to 0, but a \<^verbatim>\<open>+\<close> is taken before the scan and
  leaves the counter as it is.
\<close>

fun encode_check :: "nat \<Rightarrow> string \<Rightarrow> bool" where
  "encode_check encodeCheck [] = False"
| "encode_check encodeCheck (c # cs) =
     (if c = CHR ''+'' then encode_check encodeCheck cs
      else if c = CHR ''%'' then encode_check 1 cs
      else if 0 < encodeCheck \<and> is_hex c
      then (if Suc encodeCheck = 3 then True else encode_check (Suc encodeCheck) cs)
      else encode_check 0 cs)"

definition plus_to_space :: "char \<Rightarrow> char" where
  "plus_to_space c = (if c = CHR ''+'' then CHR '' '' else c)"

text \<open>
  \<open>unescape\<close> stands for \<^verbatim>\<open>querystring.unescape\<close>, a function of the platform; what
  is proved of the parser below holds whatever function it is.
\<close>

definition decode_component :: "(string \<Rightarrow> string) \<Rightarrow> string \<Rightarrow> string" where
  "decode_component unescape segment =
     (if encode_check 0 segment then unescape (map plus_to_space segment)
      else map plus_to_space segment)"

definition parse_pair :: "(string \<Rightarrow> string) \<Rightarrow> string \<Rightarrow> string \<times> string" where
  "parse_pair unescape piece =
     (let name = takeWhile (\<lambda>c. c \<noteq> CHR ''='') piece;
          val = drop (Suc (length name)) piece
      in (decode_component unescape name, decode_component unescape val))"

definition sequences :: "string \<Rightarrow> string list" where
  "sequences input = filter (\<lambda>piece. piece \<noteq> []) (split_on (CHR ''&'') input)"

definition parseParams :: "(string \<Rightarrow> string) \<Rightarrow> string \<Rightarrow> (string \<times> string) list" where
  "parseParams unescape qs =
     map (parse_pair unescape) (sequences (if startsWith qs ''?'' then drop 1 qs else qs))"

definition URLSearchParams :: "(string \<Rightarrow> string) \<Rightarrow> string \<Rightarrow> (string \<times> string) list" where
  "URLSearchParams unescape init = (if init = [] then [] else parseParams unescape init)"

text \<open>
  \<^verbatim>\<open>querystring.unescape\<close> on a text of ASCII characters: the escapes become their
  bytes and the bytes are read as UTF-8 (by \<^verbatim>\<open>decodeURIComponent\<close> where it accepts
  the text, by \<^verbatim>\<open>unescapeBuffer\<close> and \<^verbatim>\<open>toString\<close> where it throws; on ASCII text the
  two agree). On a text with a character outside ASCII that \<^verbatim>\<open>decodeURIComponent\<close>
  refuses, Node's function works on the code units of the text cut to bytes, which
  is not modelled: \<open>qs_unescape\<close> is evaluated on ASCII text only.
\<close>

definition hex_val :: "char \<Rightarrow> nat" where
  "hex_val c =
     (if code c \<le> 57 then code c - 48 else if code c \<le> 70 then code c - 55 else code c - 87)"

fun percent_decode :: "string \<Rightarrow> string" where
  "percent_decode (p # h # l # cs) =
     (if p = CHR ''%'' \<and> is_hex h \<and> is_hex l
      then char_of (hex_val h * 16 + hex_val l) # percent_decode cs
      else p # percent_decode (h # l # cs))"
| "percent_decode cs = cs"

definition qs_unescape :: "string \<Rightarrow> string" where
  "qs_unescape buf = utf8_text (percent_decode buf)"

text \<open>
  A \<^verbatim>\<open>FormData\<close> is its list of entries, in the order of the calls to
  \<^verbatim>\<open>append\<close>; \<^verbatim>\<open>get(name)\<close> answers the value of the first entry of that name,
  and \<^verbatim>\<open>null\<close> (here \<open>None\<close>) when there is none.
\<close>

type_synonym formdata = "(string \<times> string) list"

definition FormData_append :: "formdata \<Rightarrow> string \<times> string \<Rightarrow> formdata" where
  "FormData_append fd entry = fd @ [entry]"

fun FormData_get :: "formdata \<Rightarrow> string \<Rightarrow> string option" where
  "FormData_get [] name = None"
| "FormData_get ((k, v) # fd) name = (if k = name then Some v else FormData_get fd name)"

text \<open>
  \<^verbatim>\<open>parseFormData(request)\<close>. The body stream delivers its chunks and then either
  ends or fails; on the end the promise resolves with the form data, on a failure it
  rejects with the error (\<open>Inl\<close>).
\<close>

datatype stream_end = End | Error string

definition parseFormData ::
    "(string \<Rightarrow> string) \<Rightarrow> string list \<Rightarrow> stream_end \<Rightarrow> string + formdata" where
  "parseFormData unescape chunks fin =
     (case fin of
        Error e \<Rightarrow> Inl e
      | End \<Rightarrow>
          (let body = utf8_text (concat chunks);
               params = URLSearchParams unescape body
           in Inr (foldl FormData_append [] params)))"

section \<open>Paths of the file system\<close>

text \<open>
  Node's \<^verbatim>\<open>path\<close> module in its POSIX form. \<^verbatim>\<open>path.join\<close> puts a \<^verbatim>\<open>/\<close> between its
  non-empty arguments and normalises the result: empty segments and \<^verbatim>\<open>.\<close> are
  dropped, \<^verbatim>\<open>..\<close> removes the segment before it; above the root of an absolute path
  \<^verbatim>\<open>..\<close> is dropped, in a relative path it is kept.
\<close>

fun join_with :: "string \<Rightarrow> string list \<Rightarrow> string" where
  "join_with sep [] = []"
| "join_with sep [x] = x"
| "join_with sep (x # y # ys) = x @ sep @ join_with sep (y # ys)"

text \<open>The segments kept so far are held last-first.\<close>

fun normalize_segments :: "bool \<Rightarrow> string list \<Rightarrow> string list \<Rightarrow> string list" where
  "normalize_segments allowAboveRoot res [] = rev res"
| "normalize_segments allowAboveRoot res (seg # segs) =
     (if seg = [] \<or> seg = ''.'' then normalize_segments allowAboveRoot res segs
      else if seg = ''..'' then
        (case res of
           [] \<Rightarrow> normalize_segments allowAboveRoot (if allowAboveRoot then [''..''] else []) segs
         | seg0 # below \<Rightarrow>
             if seg0 \<noteq> ''..'' then normalize_segments allowAboveRoot below segs
             else normalize_segments allowAboveRoot
                    (if allowAboveRoot then ''..'' # res else res) segs)
      else normalize_segments allowAboveRoot (seg # res) segs)"

definition normalize :: "string \<Rightarrow> string" where
  "normalize path =
     (if path = [] then ''.''
      else
        (let isAbsolute = (hd path = CHR ''/'');
             trailingSeparator = (last path = CHR ''/'');
             p = join_with ''/'' (normalize_segments (\<not> isAbsolute) [] (split_on (CHR ''/'') path))
         in if p = [] then (if isAbsolute then ''/'' else if trailingSeparator then ''./'' else ''.'')
            else (if isAbsolute then ''/'' else []) @ p @ (if trailingSeparator then ''/'' else [])))"

definition path_join :: "string list \<Rightarrow> string" where
  "path_join args =
     (let parts = filter (\<lambda>arg. arg \<noteq> []) args
      in if parts = [] then ''.'' else normalize (join_with ''/'' parts))"

text \<open>
  \<^verbatim>\<open>path.extname\<close>: from the last dot of the last segment (separators at the end are
  skipped) to its end; empty when there is no dot, when the only dot starts the
  segment, and for \<^verbatim>\<open>..\<close>.
\<close>

definition basename :: "string \<Rightarrow> string" where
  "basename path =
     rev (takeWhile (\<lambda>c. c \<noteq> CHR ''/'') (dropWhile (\<lambda>c. c = CHR ''/'') (rev path)))"

definition extname :: "string \<Rightarrow> string" where
  "extname path =
     (let b = basename path;
          ext = rev (takeWhile (\<lambda>c. c \<noteq> CHR ''.'') (rev b));
          stem = take (length b - length ext - 1) b
      in if stem = [] \<or> (stem = ''.'' \<and> ext = []) \<or> CHR ''.'' \<notin> set b then []
         else CHR ''.'' # ext)"

section \<open>Content types\<close>

definition MIME_TYPES :: "(string \<times> string) list" where
  "MIME_TYPES =
     [(''default'', ''application/octet-stream''),
      (''html'', ''text/html; charset=utf-8''),
      (''js'', ''text/javascript''),
      (''mjs'', ''text/javascript''),
      (''css'', ''text/css''),
      (''png'', ''image/png''),
      (''jpg'', ''image/jpg''),
      (''jpeg'', ''image/jpeg''),
      (''gif'', ''image/gif''),
      (''ico'', ''image/x-icon''),
      (''svg'', ''image/svg+xml'')]"

text \<open>
  \<^verbatim>\<open>MIME_TYPES[fileExt] ?? MIME_TYPES.default\<close>. The lookup of a key in the object
  also finds what \<^verbatim>\<open>Object.prototype\<close> holds; of its keys only \<^verbatim>\<open>constructor\<close> and
  \<^verbatim>\<open>__proto__\<close> are in lower case, as \<open>fileExt\<close> is.
\<close>

definition mime_lookup :: "string \<Rightarrow> header_value" where
  "mime_lookup fileExt =
     (case map_of MIME_TYPES fileExt of
        Some mimeType \<Rightarrow> Str mimeType
      | None \<Rightarrow>
          if fileExt = ''constructor'' \<or> fileExt = ''__proto__'' then Inherited fileExt
          else Str ''application/octet-stream'')"

section \<open>The platform\<close>

text \<open>
  What the server takes from its surroundings: the working directory of the process,
  the file system as \<^verbatim>\<open>fs.access\<close> and \<^verbatim>\<open>fs.readFile\<close> answer (whether the promise
  of \<^verbatim>\<open>access\<close> resolves; the bytes read, or the error \<^verbatim>\<open>readFile\<close> rejects with), and
  \<^verbatim>\<open>url.parse(u)\<close>: the error when it throws (\<open>Inl\<close>), the \<^verbatim>\<open>pathname\<close> of its
  result otherwise (\<open>None\<close> for \<^verbatim>\<open>null\<close>). The two file operations are separate
  fields: they are two calls, and the second may fail after the first succeeded.
\<close>

record platform =
  cwd :: string
  access :: "string \<Rightarrow> bool"
  readFile :: "string \<Rightarrow> string + string"
  url_parse :: "string \<Rightarrow> string + string option"

definition PUBLIC_PATH :: "platform \<Rightarrow> string" where
  "PUBLIC_PATH env = path_join [cwd env, ''public'']"

text \<open>
  For a request target in origin form without \<^verbatim>\<open>#\<close>, \<^verbatim>\<open>@\<close>, backslash or white space,
  \<^verbatim>\<open>url.parse\<close> takes its short way, the pattern
  \<^verbatim>\<open>^(\/\/?(?!\/)[^?\s]*)(\?[^\s]*)?$\<close>: the pathname is the target up to its first
  \<^verbatim>\<open>?\<close>, and nothing is thrown. \<open>simple_pathname\<close> is \<^verbatim>\<open>url.parse(u).pathname\<close> on
  these targets. Other targets go through the long way of \<^verbatim>\<open>url.parse\<close>, which may
  throw and is not modelled; \<open>simple_pathname\<close> is only evaluated on targets of the
  first kind.
\<close>

definition is_space :: "char \<Rightarrow> bool" where
  "is_space c = (code c < 33 \<or> code c = 160)"

definition simple_path :: "string \<Rightarrow> bool" where
  "simple_path u =
     (list_all (\<lambda>c. c \<noteq> CHR ''#'' \<and> c \<noteq> CHR ''@'' \<and> c \<noteq> CHR 0x5C \<and> \<not> is_space c) u
      \<and> startsWith u ''/'' \<and> \<not> startsWith u ''///'')"

definition simple_pathname :: "string \<Rightarrow> string option" where
  "simple_pathname u =
     (if simple_path u then Some (takeWhile (\<lambda>c. c \<noteq> CHR ''?'') u) else None)"

section \<open>Regular expressions\<close>

text \<open>
  The patterns that the route table compiles to are built from a small part of the
  syntax of JavaScript's regular expressions, which is what is modelled: the
  assertions \<^verbatim>\<open>^\<close> and \<^verbatim>\<open>$\<close>, a character, the dot, the class \<^verbatim>\<open>[\w.]\<close>, the
  greedy \<^verbatim>\<open>+\<close> after one of these three, and a named group \<^verbatim>\<open>(?<name>a+)\<close> around
  one of them. \<open>RegExp\<close> answers \<open>None\<close> for every other source text: one that
  JavaScript refuses with a \<^verbatim>\<open>SyntaxError\<close>, or one outside this part of the syntax.
\<close>

datatype atom = Lit char | Dot | WordDot

datatype item = Bol | Eol | Once atom | Many atom | Cap string atom

text \<open>A dot matches any character but a line terminator.\<close>

fun atom_ok :: "atom \<Rightarrow> char \<Rightarrow> bool" where
  "atom_ok (Lit l) c = (c = l)"
| "atom_ok Dot c = (code c \<noteq> 10 \<and> code c \<noteq> 13)"
| "atom_ok WordDot c = is_word_dot c"

definition syntax_chars :: string where
  "syntax_chars = CHR 0x5C # ''^$.*+?()[]{}|''"

definition class_text :: string where
  "class_text = CHR ''['' # CHR 0x5C # ''w.]''"

definition parse_atom :: "string \<Rightarrow> (atom \<times> string) option" where
  "parse_atom s =
     (case s of
        [] \<Rightarrow> None
      | c # cs \<Rightarrow>
          if c = CHR ''.'' then Some (Dot, cs)
          else if startsWith s class_text then Some (WordDot, drop (length class_text) s)
          else if c \<in> set syntax_chars then None
          else Some (Lit c, cs))"

text \<open>The name of a group is an identifier.\<close>

definition is_digit :: "char \<Rightarrow> bool" where
  "is_digit c = (48 \<le> code c \<and> code c \<le> 57)"

definition valid_group_name :: "string \<Rightarrow> bool" where
  "valid_group_name name =
     (name \<noteq> [] \<and> \<not> is_digit (hd name) \<and> list_all (\<lambda>c. is_word c \<or> c = CHR ''$'') name)"

definition parse_group :: "string \<Rightarrow> (item \<times> string) option" where
  "parse_group s =
     (if startsWith s ''(?<'' then
        (let name = takeWhile (\<lambda>c. c \<noteq> CHR ''>'') (drop 3 s);
             rest = drop (3 + length name) s
         in if valid_group_name name \<and> startsWith rest ''>'' then
              (case parse_atom (drop 1 rest) of
                 None \<Rightarrow> None
               | Some (a, r) \<Rightarrow> if startsWith r ''+)'' then Some (Cap name a, drop 2 r) else None)
            else None)
      else None)"

lemma parse_atom_shorter: "parse_atom s = Some (a, r) \<Longrightarrow> length r < length s"
  by (auto simp: parse_atom_def class_text_def split: list.splits if_splits)

lemma parse_group_shorter: "parse_group s = Some (it, r) \<Longrightarrow> length r < length s"
  by (auto simp: parse_group_def Let_def startsWith_def
      split: if_splits option.splits dest!: parse_atom_shorter)

function parse_items :: "string \<Rightarrow> item list option" where
  "parse_items s =
     (if s = [] then Some []
      else if hd s = CHR ''^'' then map_option ((#) Bol) (parse_items (tl s))
      else if hd s = CHR ''$'' then map_option ((#) Eol) (parse_items (tl s))
      else if hd s = CHR ''('' then
        (case parse_group s of
           None \<Rightarrow> None
         | Some (it, rest) \<Rightarrow> map_option ((#) it) (parse_items rest))
      else
        (case parse_atom s of
           None \<Rightarrow> None
         | Some (a, rest) \<Rightarrow>
             if startsWith rest ''+'' then map_option ((#) (Many a)) (parse_items (drop 1 rest))
             else map_option ((#) (Once a)) (parse_items rest)))"
  by pat_completeness auto
termination
proof (relation "measure length")
  show "wf (measure length)" by simp
next
  fix s :: string
  assume "s \<noteq> []"
  then show "(tl s, s) \<in> measure length" by (cases s) simp_all
next
  fix s :: string
  assume "s \<noteq> []"
  then show "(tl s, s) \<in> measure length" by (cases s) simp_all
next
  fix s x2 x y
  assume "parse_group s = Some x2" "(x, y) = x2"
  then show "(y, s) \<in> measure length" using parse_group_shorter [of s x y] by simp
next
  fix s x2 x y
  assume "parse_atom s = Some x2" "(x, y) = x2"
  then show "(drop 1 y, s) \<in> measure length" using parse_atom_shorter [of s x y] by simp
next
  fix s x2 x y
  assume "parse_atom s = Some x2" "(x, y) = x2"
  then show "(y, s) \<in> measure length" using parse_atom_shorter [of s x y] by simp
qed

declare parse_items.simps [simp del]

fun group_names :: "item list \<Rightarrow> string list" where
  "group_names [] = []"
| "group_names (Cap name a # items) = name # group_names items"
| "group_names (it # items) = group_names items"

text \<open>\<^verbatim>\<open>new RegExp(source)\<close>; two groups of one name are a \<^verbatim>\<open>SyntaxError\<close>.\<close>

definition RegExp :: "string \<Rightarrow> item list option" where
  "RegExp source =
     (case parse_items source of
        None \<Rightarrow> None
      | Some items \<Rightarrow> if distinct (group_names items) then Some items else None)"

text \<open>
  Matching backtracks as JavaScript does: a greedy \<^verbatim>\<open>+\<close> first takes all the
  characters it can and gives them back one at a time, down to one, until the rest
  of the pattern matches. \<open>m_items items pos s groups\<close> matches at position \<open>pos\<close> of
  the input, \<open>s\<close> being the input from there on, and answers the named groups.
\<close>

fun try_counts :: "(nat \<Rightarrow> 'a option) \<Rightarrow> nat \<Rightarrow> 'a option" where
  "try_counts f 0 = None"
| "try_counts f (Suc k) = (case f (Suc k) of Some r \<Rightarrow> Some r | None \<Rightarrow> try_counts f k)"

fun m_items :: "item list \<Rightarrow> nat \<Rightarrow> string \<Rightarrow> (string \<times> string) list
    \<Rightarrow> (string \<times> string) list option" where
  "m_items [] pos s groups = Some groups"
| "m_items (Bol # items) pos s groups = (if pos = 0 then m_items items pos s groups else None)"
| "m_items (Eol # items) pos s groups = (if s = [] then m_items items pos s groups else None)"
| "m_items (Once a # items) pos s groups =
     (case s of
        [] \<Rightarrow> None
      | c # cs \<Rightarrow> if atom_ok a c then m_items items (Suc pos) cs groups else None)"
| "m_items (Many a # items) pos s groups =
     try_counts (\<lambda>k. m_items items (pos + k) (drop k s) groups)
       (length (takeWhile (atom_ok a) s))"
| "m_items (Cap name a # items) pos s groups =
     try_counts (\<lambda>k. m_items items (pos + k) (drop k s) (groups @ [(name, take k s)]))
       (length (takeWhile (atom_ok a) s))"

text \<open>
  \<^verbatim>\<open>pattern.exec(s)\<close> of a pattern without flags tries the start positions from the
  first on. The code reads of the result whether it is \<^verbatim>\<open>null\<close> (\<open>None\<close>) and its
  \<^verbatim>\<open>groups\<close>: the list is empty where JavaScript has \<^verbatim>\<open>undefined\<close>, which the code
  turns into the empty object.
\<close>

fun exec_from :: "item list \<Rightarrow> nat \<Rightarrow> string \<Rightarrow> (string \<times> string) list option" where
  "exec_from items pos [] = m_items items pos [] []"
| "exec_from items pos (c # cs) =
     (case m_items items pos (c # cs) [] of
        Some groups \<Rightarrow> Some groups
      | None \<Rightarrow> exec_from items (Suc pos) cs)"

definition exec :: "item list \<Rightarrow> string \<Rightarrow> (string \<times> string) list option" where
  "exec items s = exec_from items 0 s"

text \<open>
  A character that stands for itself in a pattern, or is the dot, and the item that
  \<open>parse_items\<close> reads from it.
\<close>

definition plain_char :: "char \<Rightarrow> bool" where
  "plain_char c = (c = CHR ''.'' \<or> c \<notin> set syntax_chars)"

definition lit_item :: "char \<Rightarrow> item" where
  "lit_item c = Once (if c = CHR ''.'' then Dot else Lit c)"

section \<open>The route table\<close>

text \<open>
  \<^verbatim>\<open>route.path.replace(/:([\w.]+)/, "(?<$1>[\\w.]+)")\<close>: the pattern has no \<^verbatim>\<open>g\<close>
  flag, so the first match is replaced and no other. \<open>find_param\<close> is that match:
  the leftmost colon followed by a character of \<^verbatim>\<open>[\w.]\<close>, with all the characters
  of the class that follow; it answers what stands before the match, the name, and
  what stands after.
\<close>

fun find_param :: "string \<Rightarrow> (string \<times> string \<times> string) option" where
  "find_param [] = None"
| "find_param (c # cs) =
     (if c = CHR '':'' \<and> takeWhile is_word_dot cs \<noteq> []
      then Some ([], takeWhile is_word_dot cs, dropWhile is_word_dot cs)
      else (case find_param cs of
              None \<Rightarrow> None
            | Some (pre, name, post) \<Rightarrow> Some (c # pre, name, post)))"

definition replace_param :: "string \<Rightarrow> string" where
  "replace_param template =
     (case find_param template of
        None \<Rightarrow> template
      | Some (pre, name, post) \<Rightarrow> pre @ ''(?<'' @ name @ ''>'' @ class_text @ ''+)'' @ post)"

definition pattern_source :: "string \<Rightarrow> string" where
  "pattern_source template = ''^'' @ replace_param template @ ''$''"

datatype handler =
  index | studentList | studentDelete | studentChange | studentsDownload | studentsSearch
  | studentsAPISearch

record route =
  path :: string
  methods :: "string list"
  handler :: handler

record compiled_route = route +
  pattern :: "item list"

definition routes :: "route list" where
  "routes =
     [\<lparr> path = ''/'', methods = [''GET''], handler = index \<rparr>,
      \<lparr> path = ''/students'', methods = [''GET'', ''POST''], handler = studentList \<rparr>,
      \<lparr> path = ''/students/delete'', methods = [''POST''], handler = studentDelete \<rparr>,
      \<lparr> path = ''/students/:id/change'', methods = [''GET'', ''POST''], handler = studentChange \<rparr>,
      \<lparr> path = ''/students/download'', methods = [''GET''], handler = studentsDownload \<rparr>,
      \<lparr> path = ''/students/search'', methods = [''GET''], handler = studentsSearch \<rparr>,
      \<lparr> path = ''/api/students'', methods = [''GET''], handler = studentsAPISearch \<rparr>]"

text \<open>
  The loop that gives every route its pattern, run once when the module is loaded.
  \<open>None\<close>: \<open>RegExp\<close> has no pattern for some route.
\<close>

fun compile_routes :: "route list \<Rightarrow> compiled_route list option" where
  "compile_routes [] = Some []"
| "compile_routes (r # rs) =
     (case RegExp (pattern_source (path r)) of
        None \<Rightarrow> None
      | Some p \<Rightarrow>
          map_option ((#) \<lparr> path = path r, methods = methods r, handler = handler r, pattern = p \<rparr>)
            (compile_routes rs))"

section \<open>The dispatcher\<close>

text \<open>
  What \<^verbatim>\<open>handleRequest\<close> does with a request: it writes a response itself, or it
  calls the handler of a route with the parameters of the match, or its promise
  rejects with an error that nothing catches (no response is written then).
\<close>

datatype outcome =
  Responded response
| Invoked handler "(string \<times> string) list"
| Rejected string

definition not_found :: "string \<Rightarrow> response" where
  "not_found html = \<lparr> status = 404, headers = [(''Content-Type'', Str ''text/html'')], body = html \<rparr>"

text \<open>The branch of the static files, lines 110 to 126.\<close>

definition serve_static :: "platform \<Rightarrow> request \<Rightarrow> outcome" where
  "serve_static env request =
     (let filePath = path_join [PUBLIC_PATH env, replace_str ''/public/'' [] (url request)];
          fileExists = access env filePath;
          fileFound = (startsWith filePath (PUBLIC_PATH env) \<and> fileExists)
      in if \<not> fileFound then Responded (not_found ''<h1>Not found!</h1>\<newline>'')
         else
           (let fileExt = toLowerCase (drop 1 (extname filePath));
                mimeType = mime_lookup fileExt
            in case readFile env filePath of
                 Inl err \<Rightarrow> Rejected err
               | Inr buffer \<Rightarrow>
                   Responded \<lparr> status = 200, headers = [(''Content-Type'', mimeType)],
                               body = buffer \<rparr>))"

text \<open>The loop over the routes, lines 129 to 145, on the pathname of the request.\<close>

fun match_routes :: "compiled_route list \<Rightarrow> string \<Rightarrow> request \<Rightarrow> outcome" where
  "match_routes [] p request = Responded (not_found ''<h1>Page not found!</h1>\<newline>'')"
| "match_routes (r # rs) p request =
     (case exec (pattern r) p of
        None \<Rightarrow> match_routes rs p request
      | Some groups \<Rightarrow>
          if method_name request \<in> set (methods r) then Invoked (handler r) groups
          else Responded \<lparr> status = 405, headers = [], body = [] \<rparr>)"

text \<open>
  \<^verbatim>\<open>handleRequest\<close>, over the compiled route table. Line 95 parses the target
  before anything else; when \<^verbatim>\<open>url.parse\<close> throws there, or \<^verbatim>\<open>redirect\<close> at line
  105, the promise of \<^verbatim>\<open>handleRequest\<close> rejects. (The status codes and the header
  values of the other responses are constants that \<^verbatim>\<open>writeHead\<close> accepts.)
  \<^verbatim>\<open>exec\<close> is given the pathname; it turns its argument into a string first, a
  \<^verbatim>\<open>null\<close> into the string of its name.
\<close>

definition null_text :: "string option \<Rightarrow> string" where
  "null_text v = (case v of None \<Rightarrow> ''null'' | Some s \<Rightarrow> s)"

definition handleRequest :: "platform \<Rightarrow> compiled_route list \<Rightarrow> request \<Rightarrow> outcome" where
  "handleRequest env table request =
     (case url_parse env (url request) of
        Inl err \<Rightarrow> Rejected err
      | Inr parsedURL_pathname \<Rightarrow>
          if endsWith (url request) ''/'' then
            (case redirect request (slice_0_m1 (url request)) (Some 301) of
               Inl err \<Rightarrow> Rejected err
             | Inr written \<Rightarrow> Responded written)
          else if startsWith (url request) ''/public/'' then serve_static env request
          else match_routes table (null_text parsedURL_pathname) request)"

section \<open>A server to evaluate\<close>

text \<open>
  The route table of the server, compiled, and surroundings to run it in: the
  process runs in \<^verbatim>\<open>/app\<close>; \<^verbatim>\<open>public\<close> holds a style sheet and a directory
  \<^verbatim>\<open>img\<close>; beside \<^verbatim>\<open>public\<close> lies a directory \<^verbatim>\<open>public-old\<close> with a file; and
  \<^verbatim>\<open>public/gone.css\<close> is a file that is there when \<^verbatim>\<open>access\<close> looks and removed
  before \<^verbatim>\<open>readFile\<close> opens it.
\<close>

definition compiled_routes :: "compiled_route list" where
  "compiled_routes = (case compile_routes routes of None \<Rightarrow> [] | Some table \<Rightarrow> table)"

definition example_files :: "(string \<times> (string + string)) list" where
  "example_files =
     [(''/app/public/style.css'', Inr ''body{}''),
      (''/app/public/img'', Inl ''EISDIR''),
      (''/app/public/gone.css'', Inl ''ENOENT''),
      (''/app/public-old/secret.txt'', Inr ''secret'')]"

definition example_platform :: platform where
  "example_platform =
     \<lparr> cwd = ''/app'',
       access = (\<lambda>p. p \<in> set (map fst example_files)),
       readFile = (\<lambda>p. case map_of example_files p of None \<Rightarrow> Inl ''ENOENT'' | Some r \<Rightarrow> r),
       url_parse = (\<lambda>u. Inr (simple_pathname u)) \<rparr>"

definition example_request :: "string \<Rightarrow> string \<Rightarrow> request" where
  "example_request m u = \<lparr> method_name = m, url = u, host = Some ''localhost:8000'' \<rparr>"

text \<open>
  A second table, in which two routes match one path: \<^verbatim>\<open>/items\<close> is matched by the
  route of that path, which allows \<^verbatim>\<open>GET\<close> only, and by the later \<^verbatim>\<open>/:page\<close>, which
  allows \<^verbatim>\<open>POST\<close>.
\<close>

definition overlapping_routes :: "route list" where
  "overlapping_routes =
     [\<lparr> path = ''/'', methods = [''GET''], handler = index \<rparr>,
      \<lparr> path = ''/items'', methods = [''GET''], handler = studentList \<rparr>,
      \<lparr> path = ''/:page'', methods = [''POST''], handler = studentChange \<rparr>]"

definition overlapping_table :: "compiled_route list" where
  "overlapping_table =
     (case compile_routes overlapping_routes of None \<Rightarrow> [] | Some table \<Rightarrow> table)"

text \<open>
  A third table, whose one route matches paths under \<^verbatim>\<open>/public/\<close> and allows
  \<^verbatim>\<open>POST\<close> only.
\<close>

definition public_routes :: "route list" where
  "public_routes = [\<lparr> path = ''/public/:file'', methods = [''POST''], handler = studentList \<rparr>]"

definition public_table :: "compiled_route list" where
  "public_table = (case compile_routes public_routes of None \<Rightarrow> [] | Some table \<Rightarrow> table)"

text \<open>
  The containment that the specification asks of a served file, in its words: the
  resolved path is the root directory or a descendant of it.
\<close>

definition inside_root :: "string \<Rightarrow> string \<Rightarrow> bool" where
  "inside_root root p = (p = root \<or> startsWith p (root @ ''/''))"

section \<open>Properties\<close>

subsection \<open>The redirect helper\<close>

lemma redirect_accepted:
  assumes "list_all valid_header_char (template_text (host request) @ target)"
      and "100 \<le> c" and "c \<le> 999"
  shows "redirect request target (Some c) =
           Inr \<lparr> status = nat c,
             headers = [(''Location'', Str (''http://'' @ template_text (host request) @ target))],
             body = [] \<rparr>"
proof -
  have prefix: "list_all valid_header_char ''http://''"
    by (simp add: valid_header_char_def code_def)
  have ok: "list_all (\<lambda>h. header_value_ok (snd h))
      [(''Location'', Str (''http://'' @ template_text (host request) @ target))]"
    using assms(1) prefix by simp
  have range: "to_int32 c = c"
    using assms(2,3) by (simp add: to_int32_def)
  show ?thesis
    using ok range assms(2,3) by (simp add: redirect_def writeHead_end_def)
qed

lemma redirect_default: "redirect request target None = redirect request target (Some 302)"
  by (simp add: redirect_def)

text \<open>
  C8, as the claim states it, fails: given the status code 99, \<open>redirect\<close> writes
  nothing, since \<^verbatim>\<open>writeHead\<close> throws; and so it does, with no status code given, for
  a target path with a line feed in it.
\<close>

theorem redirect_refused:
  "redirect (example_request ''GET'' ''/'') ''/students'' (Some 99) =
     Inl ''ERR_HTTP_INVALID_STATUS_CODE''
   \<and> redirect (example_request ''GET'' ''/'') ''/a\<newline>b'' None = Inl ''ERR_INVALID_CHAR''"
  by code_simp

text \<open>
  C8, amended. For every request and target path such that the Host header (the
  text \<^verbatim>\<open>undefined\<close> when the request has none) and the path hold only characters
  that the value of a header may hold, \<open>redirect\<close> writes the status 302 when it is
  given no status code, and the given code when that is from 100 to 999; the
  \<^verbatim>\<open>Location\<close> header is \<^verbatim>\<open>http://\<close> followed by the Host header and the path, it
  is the only header, and the body is empty.
\<close>

theorem redirect_response:
  assumes "list_all valid_header_char (template_text (host request) @ target)"
  shows "redirect request target None =
           Inr \<lparr> status = 302,
             headers = [(''Location'', Str (''http://'' @ template_text (host request) @ target))],
             body = [] \<rparr>
     \<and> (\<forall>c. 100 \<le> c \<and> c \<le> 999 \<longrightarrow>
           redirect request target (Some c) =
             Inr \<lparr> status = nat c,
               headers = [(''Location'', Str (''http://'' @ template_text (host request) @ target))],
               body = [] \<rparr>)
     \<and> (\<forall>h. host request = Some h \<longrightarrow> template_text (host request) = h)
     \<and> (host request = None \<longrightarrow> template_text (host request) = ''undefined'')"
proof -
  have none: "redirect request target None =
           Inr \<lparr> status = 302,
             headers = [(''Location'', Str (''http://'' @ template_text (host request) @ target))],
             body = [] \<rparr>"
    using redirect_accepted [OF assms, of 302] by (simp add: redirect_default)
  have some: "redirect request target (Some c) =
             Inr \<lparr> status = nat c,
               headers = [(''Location'', Str (''http://'' @ template_text (host request) @ target))],
               body = [] \<rparr>" if "100 \<le> c" "c \<le> 999" for c
    using redirect_accepted [OF assms that] .
  show ?thesis
    using none some by (simp add: template_text_def)
qed

theorem redirect_response_witness:
  "list_all valid_header_char (template_text (host (example_request ''GET'' ''/'')) @ ''/students'')
   \<and> redirect (example_request ''GET'' ''/'') ''/students'' None =
        Inr \<lparr> status = 302,
          headers = [(''Location'', Str ''http://localhost:8000/students'')], body = [] \<rparr>
   \<and> redirect (example_request ''GET'' ''/'') ''/students'' (Some 301) =
        Inr \<lparr> status = 301,
          headers = [(''Location'', Str ''http://localhost:8000/students'')], body = [] \<rparr>"
proof -
  have a: "list_all valid_header_char
      (template_text (host (example_request ''GET'' ''/'')) @ ''/students'')"
    by code_simp
  have h: "template_text (host (example_request ''GET'' ''/'')) = ''localhost:8000''"
    by code_simp
  show ?thesis
    using redirect_response [OF a] a h by simp
qed

subsection \<open>Form bodies\<close>

lemma foldl_FormData_append: "foldl FormData_append acc ps = acc @ ps"
  by (induction ps arbitrary: acc) (simp_all add: FormData_append_def)

lemma URLSearchParams_parseParams: "URLSearchParams unescape init = parseParams unescape init"
  by (simp add: URLSearchParams_def parseParams_def sequences_def startsWith_def)

lemma parseFormData_End:
  "parseFormData unescape chunks End = Inr (parseParams unescape (utf8_text (concat chunks)))"
  by (simp add: parseFormData_def foldl_FormData_append URLSearchParams_parseParams)

lemma FormData_get_absent: "k \<notin> fst ` set fd \<Longrightarrow> FormData_get fd k = None"
  by (induction fd) auto

lemma FormData_get_first:
  "k \<notin> fst ` set before \<Longrightarrow> FormData_get (before @ (k, v) # after) k = Some v"
  by (induction before) auto

lemma FormData_get_Cons:
  "FormData_get (p # fd) k = (if fst p = k then Some (snd p) else FormData_get fd k)"
  by (cases p) simp

lemma FormData_get_find:
  "FormData_get (map f ps) k = map_option (\<lambda>p. snd (f p)) (find (\<lambda>p. fst (f p) = k) ps)"
  by (induction ps) (simp_all add: FormData_get_Cons)

text \<open>The body of the example holds no escape, so \<^verbatim>\<open>querystring.unescape\<close> is not called.\<close>

lemma example_body_parsed:
  "parseParams unescape (utf8_text ''name=Harry+Potter&house=Gryffindor'') =
     [(''name'', ''Harry Potter''), (''house'', ''Gryffindor'')]"
proof -
  have decoded: "utf8_text ''name=Harry+Potter&house=Gryffindor'' = ''name=Harry+Potter&house=Gryffindor''"
    by code_simp
  have pieces: "sequences ''name=Harry+Potter&house=Gryffindor'' = [''name=Harry+Potter'', ''house=Gryffindor'']"
    by code_simp
  have plain: "\<not> encode_check 0 ''name''" "\<not> encode_check 0 ''Harry+Potter''"
    "\<not> encode_check 0 ''house''" "\<not> encode_check 0 ''Gryffindor''"
    by code_simp+
  have spaces: "map plus_to_space ''name'' = ''name''"
    "map plus_to_space ''Harry+Potter'' = ''Harry Potter''"
    "map plus_to_space ''house'' = ''house''" "map plus_to_space ''Gryffindor'' = ''Gryffindor''"
    by code_simp+
  have first: "parse_pair unescape ''name=Harry+Potter'' = (''name'', ''Harry Potter'')"
    using plain spaces by (simp add: parse_pair_def decode_component_def)
  have second: "parse_pair unescape ''house=Gryffindor'' = (''house'', ''Gryffindor'')"
    using plain spaces by (simp add: parse_pair_def decode_component_def)
  show ?thesis
    unfolding decoded parseParams_def using pieces first second by (simp add: startsWith_def)
qed

text \<open>
  C9. However the body \<^verbatim>\<open>name=Harry+Potter&house=Gryffindor\<close> arrives in chunks,
  \<open>parseFormData\<close> resolves with the two entries \<^verbatim>\<open>name\<close>, \<^verbatim>\<open>Harry Potter\<close> and
  \<^verbatim>\<open>house\<close>, \<^verbatim>\<open>Gryffindor\<close>, the plus sign decoded to a space; the lookup of the two
  names gives these values, and the lookup of a name that is not among the entries
  (of this or of any other body) gives \<^verbatim>\<open>null\<close>, which is \<open>None\<close>, not an error.
\<close>

theorem form_body_example:
  assumes "concat chunks = ''name=Harry+Potter&house=Gryffindor''"
  shows "parseFormData unescape chunks End =
           Inr [(''name'', ''Harry Potter''), (''house'', ''Gryffindor'')]
     \<and> (\<forall>fd. parseFormData unescape chunks End = Inr fd \<longrightarrow>
           FormData_get fd ''name'' = Some ''Harry Potter''
         \<and> FormData_get fd ''house'' = Some ''Gryffindor''
         \<and> (\<forall>k. k \<noteq> ''name'' \<and> k \<noteq> ''house'' \<longrightarrow> FormData_get fd k = None))
     \<and> (\<forall>body fd k. parseFormData unescape body End = Inr fd \<and> k \<notin> fst ` set fd
           \<longrightarrow> FormData_get fd k = None)"
proof -
  have parsed: "parseFormData unescape chunks End =
      Inr [(''name'', ''Harry Potter''), (''house'', ''Gryffindor'')]"
    by (simp only: parseFormData_End assms example_body_parsed)
  have absent: "\<And>(fd :: formdata) k. k \<notin> fst ` set fd \<Longrightarrow> FormData_get fd k = None"
    by (rule FormData_get_absent)
  show ?thesis
    using parsed absent by auto
qed

theorem form_body_example_witness:
  "concat [''name=Harry+Pot'', ''ter&house=Gryffindor''] = ''name=Harry+Potter&house=Gryffindor''
   \<and> parseFormData qs_unescape [''name=Harry+Pot'', ''ter&house=Gryffindor''] End
       = Inr [(''name'', ''Harry Potter''), (''house'', ''Gryffindor'')]
   \<and> FormData_get [(''name'', ''Harry Potter''), (''house'', ''Gryffindor'')] ''id'' = None"
  using form_body_example [of "[''name=Harry+Pot'', ''ter&house=Gryffindor'']" qs_unescape]
  by simp

text \<open>
  C3, as the claim states it, fails: in the body \<^verbatim>\<open>a=1&b=x&a=2\<close> the name \<^verbatim>\<open>a\<close>
  occurs twice, and the lookup gives \<^verbatim>\<open>1\<close>, the value of the first occurrence, not
  \<^verbatim>\<open>2\<close>.
\<close>

theorem formdata_last_occurrence_refuted:
  "parseFormData qs_unescape [''a=1&b=x&a=2''] End =
     Inr [(''a'', ''1''), (''b'', ''x''), (''a'', ''2'')]
   \<and> FormData_get [(''a'', ''1''), (''b'', ''x''), (''a'', ''2'')] ''a'' = Some ''1''
   \<and> FormData_get [(''a'', ''1''), (''b'', ''x''), (''a'', ''2'')] ''a'' \<noteq> Some ''2''"
  by code_simp

text \<open>
  C3, amended. The form data has one entry for every non-empty piece of the body
  between \<^verbatim>\<open>&\<close>, in the order of the body: its list of entries is the list of the
  pieces, each read as name and value. The lookup of a name answers the first: it
  gives the value of the first piece whose decoded name is \<open>k\<close>; and when an entry of
  the name \<open>k\<close> has no entry of that name before it, the lookup of \<open>k\<close> gives its
  value, whatever follows.
\<close>

theorem formdata_first_occurrence:
  assumes "parseFormData unescape chunks End = Inr fd"
  shows "(let input = utf8_text (concat chunks);
              pieces = sequences (if startsWith input ''?'' then drop 1 input else input)
          in fd = map (parse_pair unescape) pieces
             \<and> length fd = length pieces
             \<and> FormData_get fd k =
                 map_option (\<lambda>piece. snd (parse_pair unescape piece))
                   (find (\<lambda>piece. fst (parse_pair unescape piece) = k) pieces))
     \<and> (\<forall>before v after. fd = before @ (k, v) # after \<and> k \<notin> fst ` set before
            \<longrightarrow> FormData_get fd k = Some v)"
proof -
  define input where "input = utf8_text (concat chunks)"
  define pieces where "pieces = sequences (if startsWith input ''?'' then drop 1 input else input)"
  have fd: "fd = map (parse_pair unescape) pieces"
    using assms by (auto simp: parseFormData_End parseParams_def pieces_def input_def)
  have lookup: "FormData_get fd k =
                 map_option (\<lambda>piece. snd (parse_pair unescape piece))
                   (find (\<lambda>piece. fst (parse_pair unescape piece) = k) pieces)"
    unfolding fd by (rule FormData_get_find)
  have first: "\<forall>before v after. fd = before @ (k, v) # after \<and> k \<notin> fst ` set before
            \<longrightarrow> FormData_get fd k = Some v"
    by (auto simp: FormData_get_first)
  have "fd = map (parse_pair unescape) pieces \<and> length fd = length pieces
      \<and> FormData_get fd k =
                 map_option (\<lambda>piece. snd (parse_pair unescape piece))
                   (find (\<lambda>piece. fst (parse_pair unescape piece) = k) pieces)"
    using fd lookup by simp
  then show ?thesis
    using first unfolding pieces_def input_def Let_def by blast
qed

theorem formdata_first_occurrence_witness:
  "parseFormData qs_unescape [''a=1&b=x&a=2''] End =
     Inr [(''a'', ''1''), (''b'', ''x''), (''a'', ''2'')]
   \<and> sequences (utf8_text (concat [''a=1&b=x&a=2''])) = [''a=1'', ''b=x'', ''a=2'']
   \<and> length [(''a'', ''1''), (''b'', ''x''), (''a'', ''2'')] = length [''a=1'', ''b=x'', ''a=2'']
   \<and> FormData_get [(''a'', ''1''), (''b'', ''x''), (''a'', ''2'')] ''a'' = Some ''1''"
proof -
  have p: "parseFormData qs_unescape [''a=1&b=x&a=2''] End =
      Inr [(''a'', ''1''), (''b'', ''x''), (''a'', ''2'')]"
    by code_simp
  have s: "sequences (utf8_text (concat [''a=1&b=x&a=2''])) = [''a=1'', ''b=x'', ''a=2'']"
    by code_simp
  have "[(''a'', ''1''), (''b'', ''x''), (''a'', ''2'')] =
        [] @ (''a'', ''1'') # [(''b'', ''x''), (''a'', ''2'')]
      \<and> ''a'' \<notin> fst ` set ([] :: formdata)"
    by simp
  with formdata_first_occurrence [OF p, of "''a''"] p s show ?thesis by simp
qed

subsection \<open>The dispatcher\<close>

text \<open>Every route of the server has its pattern: the loop of lines 74 to 78 runs through.\<close>

lemma routes_compile:
  "compile_routes routes = Some compiled_routes \<and> map path compiled_routes = map path routes"
  by code_simp

lemma match_routes_first:
  "\<forall>r' \<in> set before. exec (pattern r') p = None \<Longrightarrow>
   match_routes (before @ r # after) p request = match_routes (r # after) p request"
  by (induction before) simp_all

text \<open>A target that \<^verbatim>\<open>url.parse\<close> throws on: line 95 ends the request, nothing is written.\<close>

lemma url_parse_throws:
  "url_parse env (url request) = Inl err \<Longrightarrow> handleRequest env table request = Rejected err"
  by (simp add: handleRequest_def)

text \<open>
  C2. The request \<^verbatim>\<open>GET /\<close>: its pathname is \<^verbatim>\<open>/\<close>, which the route \<^verbatim>\<open>/\<close> of the
  table matches, and the loop over the routes would call the handler \<^verbatim>\<open>index\<close>.
  But the target ends in a slash, the test of line 104 has no exception for the
  bare root, and the request is answered with a 301 to the empty path; the loop is
  not reached.
\<close>

theorem root_not_dispatched:
  "url_parse example_platform ''/'' = Inr (Some ''/'')
   \<and> match_routes compiled_routes ''/'' (example_request ''GET'' ''/'') = Invoked index []
   \<and> handleRequest example_platform compiled_routes (example_request ''GET'' ''/'') =
        Responded \<lparr> status = 301,
          headers = [(''Location'', Str ''http://localhost:8000'')], body = [] \<rparr>"
  by code_simp

text \<open>
  What the test of line 104 does, for every request that \<^verbatim>\<open>url.parse\<close> accepts and
  whose Host header and target \<^verbatim>\<open>writeHead\<close> accepts: a target that ends in a slash,
  the query string counted in, is answered with a 301 to the target without its last
  character, and no handler is called.
\<close>

lemma trailing_slash_redirect:
  assumes "url_parse env (url request) = Inr parsed"
      and "endsWith (url request) ''/''"
      and "list_all valid_header_char (template_text (host request) @ butlast (url request))"
  shows "handleRequest env table request =
           Responded \<lparr> status = 301,
             headers = [(''Location'',
               Str (''http://'' @ template_text (host request) @ butlast (url request)))],
             body = [] \<rparr>"
proof -
  have "redirect request (butlast (url request)) (Some 301) =
      Inr \<lparr> status = nat 301,
             headers = [(''Location'',
               Str (''http://'' @ template_text (host request) @ butlast (url request)))],
             body = [] \<rparr>"
    using redirect_accepted [OF assms(3), of 301] by simp
  then show ?thesis
    using assms(1,2) by (simp add: handleRequest_def slice_0_m1_def)
qed

text \<open>
  A slash at the end of the path with a query string behind it is not seen by that
  test: \<^verbatim>\<open>/students/?a=1\<close> goes on to the route table.
\<close>

lemma trailing_slash_before_query_not_redirected:
  "simple_pathname ''/students/?a=1'' = Some ''/students/''
   \<and> endsWith ''/students/'' ''/''
   \<and> handleRequest example_platform compiled_routes (example_request ''GET'' ''/students/?a=1'') =
        Responded \<lparr> status = 404, headers = [(''Content-Type'', Str ''text/html'')],
          body = ''<h1>Page not found!</h1>\<newline>'' \<rparr>"
  by code_simp

text \<open>
  C10. The checks of lines 104 and 109 read the whole target, the route table
  reads the pathname: a request that one of the two checks takes is answered the
  same whatever pathname \<^verbatim>\<open>url.parse\<close> makes of its target, and every other request
  is answered by the loop over the routes from its pathname and method alone (in
  both cases, if \<^verbatim>\<open>url.parse\<close> does not throw).
  \<^verbatim>\<open>/students?q=/\<close> has the pathname \<^verbatim>\<open>/students\<close>, which does
  not end in a slash, and is answered with a 301 (to the target without its last
  character) and no handler; \<^verbatim>\<open>/students?order=abc\<close> reaches the handler of the
  route \<^verbatim>\<open>/students\<close>, as \<^verbatim>\<open>/students\<close> does. Likewise \<^verbatim>\<open>/public/style.css\<close> is
  served, and with a query string behind it the file is looked for under the name
  with the query string and not found.
\<close>

theorem url_checks_versus_pathname:
  "(url_parse env (url request) = Inr parsed \<and> f (url request) = Inr parsed'
      \<and> (endsWith (url request) ''/'' \<or> startsWith (url request) ''/public/'') \<longrightarrow>
      handleRequest (env\<lparr> url_parse := f \<rparr>) table request = handleRequest env table request)
   \<and> (url_parse env (url request) = Inr parsed
      \<and> \<not> endsWith (url request) ''/'' \<and> \<not> startsWith (url request) ''/public/'' \<longrightarrow>
      handleRequest env table request = match_routes table (null_text parsed) request)
   \<and> simple_pathname ''/students?q=/'' = Some ''/students''
   \<and> url_parse example_platform ''/students?q=/'' = Inr (Some ''/students'')
   \<and> \<not> endsWith ''/students'' ''/''
   \<and> handleRequest example_platform compiled_routes (example_request ''GET'' ''/students?q=/'') =
        Responded \<lparr> status = 301,
          headers = [(''Location'', Str ''http://localhost:8000/students?q='')], body = [] \<rparr>
   \<and> handleRequest example_platform compiled_routes (example_request ''GET'' ''/students?order=abc'') =
        Invoked studentList []
   \<and> handleRequest example_platform compiled_routes (example_request ''GET'' ''/students'') =
        Invoked studentList []
   \<and> handleRequest example_platform compiled_routes (example_request ''GET'' ''/public/style.css'') =
        Responded \<lparr> status = 200, headers = [(''Content-Type'', Str ''text/css'')],
          body = ''body{}'' \<rparr>
   \<and> handleRequest example_platform compiled_routes (example_request ''GET'' ''/public/style.css?v=1'') =
        Responded \<lparr> status = 404, headers = [(''Content-Type'', Str ''text/html'')],
          body = ''<h1>Not found!</h1>\<newline>'' \<rparr>"
proof -
  have whole: "url_parse env (url request) = Inr parsed \<and> f (url request) = Inr parsed'
      \<and> (endsWith (url request) ''/'' \<or> startsWith (url request) ''/public/'') \<longrightarrow>
      handleRequest (env\<lparr> url_parse := f \<rparr>) table request = handleRequest env table request"
    by (simp add: handleRequest_def serve_static_def PUBLIC_PATH_def Let_def)
  have loop: "url_parse env (url request) = Inr parsed
      \<and> \<not> endsWith (url request) ''/'' \<and> \<not> startsWith (url request) ''/public/'' \<longrightarrow>
      handleRequest env table request = match_routes table (null_text parsed) request"
    by (simp add: handleRequest_def)
  have examples: "simple_pathname ''/students?q=/'' = Some ''/students''
   \<and> url_parse example_platform ''/students?q=/'' = Inr (Some ''/students'')
   \<and> \<not> endsWith ''/students'' ''/''
   \<and> handleRequest example_platform compiled_routes (example_request ''GET'' ''/students?q=/'') =
        Responded \<lparr> status = 301,
          headers = [(''Location'', Str ''http://localhost:8000/students?q='')], body = [] \<rparr>
   \<and> handleRequest example_platform compiled_routes (example_request ''GET'' ''/students?order=abc'') =
        Invoked studentList []
   \<and> handleRequest example_platform compiled_routes (example_request ''GET'' ''/students'') =
        Invoked studentList []
   \<and> handleRequest example_platform compiled_routes (example_request ''GET'' ''/public/style.css'') =
        Responded \<lparr> status = 200, headers = [(''Content-Type'', Str ''text/css'')],
          body = ''body{}'' \<rparr>
   \<and> handleRequest example_platform compiled_routes (example_request ''GET'' ''/public/style.css?v=1'') =
        Responded \<lparr> status = 404, headers = [(''Content-Type'', Str ''text/html'')],
          body = ''<h1>Not found!</h1>\<newline>'' \<rparr>"
    by code_simp
  show ?thesis using whole loop examples by blast
qed

theorem url_checks_versus_pathname_witness:
  "url_parse example_platform (url (example_request ''GET'' ''/students?q=/'')) = Inr (Some ''/students'')
   \<and> endsWith (url (example_request ''GET'' ''/students?q=/'')) ''/''
   \<and> handleRequest (example_platform\<lparr> url_parse := (\<lambda>u. Inr None) \<rparr>) compiled_routes
        (example_request ''GET'' ''/students?q=/'') =
        Responded \<lparr> status = 301,
          headers = [(''Location'', Str ''http://localhost:8000/students?q='')], body = [] \<rparr>
   \<and> url_parse example_platform (url (example_request ''GET'' ''/students?order=abc'')) = Inr (Some ''/students'')
   \<and> \<not> endsWith (url (example_request ''GET'' ''/students?order=abc'')) ''/''
   \<and> \<not> startsWith (url (example_request ''GET'' ''/students?order=abc'')) ''/public/''
   \<and> match_routes compiled_routes ''/students'' (example_request ''GET'' ''/students?order=abc'') =
        Invoked studentList []"
proof -
  have a: "url_parse example_platform (url (example_request ''GET'' ''/students?q=/'')) = Inr (Some ''/students'')
      \<and> endsWith (url (example_request ''GET'' ''/students?q=/'')) ''/''"
    by code_simp
  have b: "url_parse example_platform (url (example_request ''GET'' ''/students?order=abc'')) = Inr (Some ''/students'')
      \<and> \<not> endsWith (url (example_request ''GET'' ''/students?order=abc'')) ''/''
      \<and> \<not> startsWith (url (example_request ''GET'' ''/students?order=abc'')) ''/public/''"
    by code_simp
  from url_checks_versus_pathname [where request = "example_request ''GET'' ''/students?q=/''"
      and env = example_platform and f = "\<lambda>u. Inr None" and table = compiled_routes
      and parsed = "Some ''/students''" and parsed' = None] a
  have one: "handleRequest (example_platform\<lparr> url_parse := (\<lambda>u. Inr None) \<rparr>) compiled_routes
        (example_request ''GET'' ''/students?q=/'') =
        Responded \<lparr> status = 301,
          headers = [(''Location'', Str ''http://localhost:8000/students?q='')], body = [] \<rparr>"
    by simp
  from url_checks_versus_pathname [where request = "example_request ''GET'' ''/students?order=abc''"
      and env = example_platform and f = "\<lambda>u. Inr None" and table = compiled_routes
      and parsed = "Some ''/students''" and parsed' = None] b
  have two: "match_routes compiled_routes ''/students'' (example_request ''GET'' ''/students?order=abc'') =
        Invoked studentList []"
    by (elim conjE) (simp add: null_text_def)
  show ?thesis using a b one two by blast
qed

text \<open>
  C5, as the claim states it, fails. The path of \<^verbatim>\<open>DELETE /students?q=/\<close> is
  \<^verbatim>\<open>/students\<close>, which the route \<^verbatim>\<open>/students\<close> matches, and \<^verbatim>\<open>DELETE\<close> is not among
  its methods; the answer is the 301 of line 105, not 405. And with a table whose
  route matches \<^verbatim>\<open>/public/style.css\<close> and allows \<^verbatim>\<open>POST\<close> only, \<^verbatim>\<open>GET\<close> of that path
  is answered by the static branch, with the file.
\<close>

theorem disallowed_method_not_405:
  "url_parse example_platform ''/students?q=/'' = Inr (Some ''/students'')
   \<and> exec (pattern (compiled_routes ! 1)) ''/students'' = Some []
   \<and> ''DELETE'' \<notin> set (methods (compiled_routes ! 1))
   \<and> handleRequest example_platform compiled_routes (example_request ''DELETE'' ''/students?q=/'') =
        Responded \<lparr> status = 301,
          headers = [(''Location'', Str ''http://localhost:8000/students?q='')], body = [] \<rparr>
   \<and> url_parse example_platform ''/public/style.css'' = Inr (Some ''/public/style.css'')
   \<and> exec (pattern (public_table ! 0)) ''/public/style.css'' = Some [(''file'', ''style.css'')]
   \<and> ''GET'' \<notin> set (methods (public_table ! 0))
   \<and> handleRequest example_platform public_table (example_request ''GET'' ''/public/style.css'') =
        Responded \<lparr> status = 200, headers = [(''Content-Type'', Str ''text/css'')],
          body = ''body{}'' \<rparr>"
  by code_simp

text \<open>
  C5, amended. Take a request that comes to the loop over the routes: \<^verbatim>\<open>url.parse\<close>
  gives its pathname, and its target neither ends in a slash nor begins with
  \<^verbatim>\<open>/public/\<close>. Let \<open>r\<close> be the first route of the table whose pattern matches the
  pathname, and let the method of the request not be among the methods of \<open>r\<close>. Then
  the dispatcher answers 405 with no header and an empty body, whatever routes
  follow \<open>r\<close> in the table: they are not tried, and no handler is called.
\<close>

theorem first_path_match_decides:
  assumes "url_parse env (url request) = Inr parsed"
      and "\<not> endsWith (url request) ''/''" and "\<not> startsWith (url request) ''/public/''"
      and "\<forall>r' \<in> set before. exec (pattern r') (null_text parsed) = None"
      and "exec (pattern r) (null_text parsed) = Some params"
      and "method_name request \<notin> set (methods r)"
  shows "handleRequest env (before @ r # after) request =
           Responded \<lparr> status = 405, headers = [], body = [] \<rparr>
     \<and> match_routes (before @ r # after) (null_text parsed) request =
           Responded \<lparr> status = 405, headers = [], body = [] \<rparr>"
  using assms by (simp add: match_routes_first handleRequest_def)

lemma overlapping_table_eq:
  "overlapping_table =
     [\<lparr> path = ''/'', methods = [''GET''], handler = index,
         pattern = [Bol, Once (Lit (CHR ''/'')), Eol] \<rparr>]
     @ \<lparr> path = ''/items'', methods = [''GET''], handler = studentList,
         pattern = [Bol, Once (Lit (CHR ''/'')), Once (Lit (CHR ''i'')), Once (Lit (CHR ''t'')),
                    Once (Lit (CHR ''e'')), Once (Lit (CHR ''m'')), Once (Lit (CHR ''s'')), Eol] \<rparr>
     # [\<lparr> path = ''/:page'', methods = [''POST''], handler = studentChange,
         pattern = [Bol, Once (Lit (CHR ''/'')), Cap ''page'' WordDot, Eol] \<rparr>]"
  by code_simp

theorem first_path_match_decides_witness:
  "url_parse example_platform (url (example_request ''POST'' ''/items'')) = Inr (Some ''/items'')
   \<and> \<not> endsWith (url (example_request ''POST'' ''/items'')) ''/''
   \<and> \<not> startsWith (url (example_request ''POST'' ''/items'')) ''/public/''
   \<and> exec (pattern (overlapping_table ! 0)) ''/items'' = None
   \<and> exec (pattern (overlapping_table ! 1)) ''/items'' = Some []
   \<and> ''POST'' \<notin> set (methods (overlapping_table ! 1))
   \<and> exec (pattern (overlapping_table ! 2)) ''/items'' = Some [(''page'', ''items'')]
   \<and> ''POST'' \<in> set (methods (overlapping_table ! 2))
   \<and> handleRequest example_platform overlapping_table (example_request ''POST'' ''/items'') =
        Responded \<lparr> status = 405, headers = [], body = [] \<rparr>"
proof -
  let ?r0 = "\<lparr> path = ''/'', methods = [''GET''], handler = index,
         pattern = [Bol, Once (Lit (CHR ''/'')), Eol] \<rparr>"
  let ?r1 = "\<lparr> path = ''/items'', methods = [''GET''], handler = studentList,
         pattern = [Bol, Once (Lit (CHR ''/'')), Once (Lit (CHR ''i'')), Once (Lit (CHR ''t'')),
                    Once (Lit (CHR ''e'')), Once (Lit (CHR ''m'')), Once (Lit (CHR ''s'')), Eol] \<rparr>"
  let ?r2 = "\<lparr> path = ''/:page'', methods = [''POST''], handler = studentChange,
         pattern = [Bol, Once (Lit (CHR ''/'')), Cap ''page'' WordDot, Eol] \<rparr>"
  let ?rq = "example_request ''POST'' ''/items''"
  have e0: "exec (pattern ?r0) ''/items'' = None" by code_simp
  have e1: "exec (pattern ?r1) ''/items'' = Some []" by code_simp
  have e2: "exec (pattern ?r2) ''/items'' = Some [(''page'', ''items'')]" by code_simp
  have p: "url_parse example_platform (url ?rq) = Inr (Some ''/items'')" by code_simp
  have u1: "\<not> endsWith (url ?rq) ''/''" by code_simp
  have u2: "\<not> startsWith (url ?rq) ''/public/''" by code_simp
  have b: "\<forall>r' \<in> set [?r0]. exec (pattern r') (null_text (Some ''/items'')) = None"
    using e0 by (simp add: null_text_def)
  have e1': "exec (pattern ?r1) (null_text (Some ''/items'')) = Some []"
    using e1 by (simp add: null_text_def)
  have m: "method_name ?rq \<notin> set (methods ?r1)" by (simp add: example_request_def)
  have "handleRequest example_platform ([?r0] @ ?r1 # [?r2]) ?rq =
        Responded \<lparr> status = 405, headers = [], body = [] \<rparr>"
    using first_path_match_decides [OF p u1 u2 b e1' m, of "[?r2]"] by blast
  then show ?thesis
    using e0 e1 e2 p u1 u2 by (simp add: overlapping_table_eq)
qed

subsection \<open>Static files\<close>

text \<open>
  C1. The request \<^verbatim>\<open>/public/../public-old/secret.txt\<close> resolves to
  \<^verbatim>\<open>/app/public-old/secret.txt\<close>, in a directory beside the root \<^verbatim>\<open>/app/public\<close>
  and not inside it. The test of line 115 compares the texts of the two paths,
  finds the one to begin with the other, and the file is served with status 200.
\<close>

theorem static_sibling_served:
  "PUBLIC_PATH example_platform = ''/app/public''
   \<and> path_join [PUBLIC_PATH example_platform,
        replace_str ''/public/'' [] ''/public/../public-old/secret.txt'']
       = ''/app/public-old/secret.txt''
   \<and> \<not> inside_root (PUBLIC_PATH example_platform) ''/app/public-old/secret.txt''
   \<and> handleRequest example_platform compiled_routes
        (example_request ''GET'' ''/public/../public-old/secret.txt'') =
        Responded \<lparr> status = 200, headers = [(''Content-Type'', Str ''application/octet-stream'')],
          body = ''secret'' \<rparr>"
  by code_simp

text \<open>
  What the test of line 115 does refuse: a resolved path whose text does not begin
  with the text of the root is answered with the 404 of the static branch.
\<close>

lemma static_outside_prefix_not_found:
  assumes "url_parse env (url request) = Inr parsed"
      and "\<not> endsWith (url request) ''/''" and "startsWith (url request) ''/public/''"
      and "\<not> startsWith (path_join [PUBLIC_PATH env, replace_str ''/public/'' [] (url request)])
              (PUBLIC_PATH env)"
  shows "handleRequest env table request =
           Responded \<lparr> status = 404, headers = [(''Content-Type'', Str ''text/html'')],
             body = ''<h1>Not found!</h1>\<newline>'' \<rparr>"
  using assms by (simp add: handleRequest_def serve_static_def Let_def not_found_def)

text \<open>
  A read that fails after the checks of line 115 have passed, whatever the request.
\<close>

lemma static_read_failure:
  assumes "url_parse env (url request) = Inr parsed"
      and "\<not> endsWith (url request) ''/''" and "startsWith (url request) ''/public/''"
      and "filePath = path_join [PUBLIC_PATH env, replace_str ''/public/'' [] (url request)]"
      and "startsWith filePath (PUBLIC_PATH env)" and "access env filePath"
      and "readFile env filePath = Inl err"
  shows "handleRequest env table request = Rejected err"
  using assms by (simp add: handleRequest_def serve_static_def Let_def)

text \<open>
  C7. Where \<^verbatim>\<open>access\<close> succeeds and \<^verbatim>\<open>readFile\<close> fails (a directory under the
  root, or a file removed between the two calls), the \<^verbatim>\<open>await\<close> of line 123 throws
  inside \<open>handleRequest\<close>, nothing catches it, and no response is written.
\<close>

theorem static_read_failure_uncaught:
  "access example_platform ''/app/public/img''
   \<and> readFile example_platform ''/app/public/img'' = Inl ''EISDIR''
   \<and> handleRequest example_platform compiled_routes (example_request ''GET'' ''/public/img'') =
        Rejected ''EISDIR''
   \<and> access example_platform ''/app/public/gone.css''
   \<and> readFile example_platform ''/app/public/gone.css'' = Inl ''ENOENT''
   \<and> handleRequest example_platform compiled_routes (example_request ''GET'' ''/public/gone.css'') =
        Rejected ''ENOENT''"
  by code_simp

subsection \<open>Compiling a route to its pattern\<close>

lemma parse_items_Nil: "parse_items [] = Some []"
  by (simp add: parse_items.simps)

lemma parse_items_Bol: "parse_items (CHR ''^'' # s) = map_option ((#) Bol) (parse_items s)"
  by (subst parse_items.simps) simp

lemma parse_items_Eol: "parse_items (CHR ''$'' # s) = map_option ((#) Eol) (parse_items s)"
  by (subst parse_items.simps) simp

lemma parse_atom_plain:
  "plain_char c \<Longrightarrow> parse_atom (c # s) = Some ((if c = CHR ''.'' then Dot else Lit c), s)"
  by (auto simp: parse_atom_def plain_char_def startsWith_def class_text_def syntax_chars_def)

lemma plain_char_not_special:
  "plain_char c \<Longrightarrow> c \<noteq> CHR ''^'' \<and> c \<noteq> CHR ''$'' \<and> c \<noteq> CHR ''('' \<and> c \<noteq> CHR ''+''"
  by (auto simp: plain_char_def syntax_chars_def)

lemma parse_items_plain:
  assumes "plain_char c" and "\<not> startsWith s ''+''"
  shows "parse_items (c # s) = map_option ((#) (lit_item c)) (parse_items s)"
  using assms plain_char_not_special [of c]
  by (subst parse_items.simps) (simp add: parse_atom_plain lit_item_def)

lemma parse_items_literal:
  "list_all plain_char lit \<Longrightarrow> \<not> startsWith rest ''+'' \<Longrightarrow>
   parse_items (lit @ rest) = map_option ((@) (map lit_item lit)) (parse_items rest)"
proof (induction lit)
  case Nil
  then show ?case by (simp add: option.map_ident)
next
  case (Cons c lit)
  have next_char: "\<not> startsWith (lit @ rest) ''+''"
  proof (cases lit)
    case Nil
    with Cons.prems show ?thesis by simp
  next
    case (Cons d lit')
    with Cons.prems plain_char_not_special [of d] show ?thesis
      by (simp add: startsWith_def)
  qed
  from Cons have "parse_items (lit @ rest) = map_option ((@) (map lit_item lit)) (parse_items rest)"
    by simp
  with Cons.prems next_char show ?case
    by (simp add: parse_items_plain option.map_comp comp_def)
qed

lemma valid_group_name_no_gt: "valid_group_name name \<Longrightarrow> CHR ''>'' \<notin> set name"
  by (auto simp: valid_group_name_def list_all_iff is_word_def code_def)

lemma parse_group_compiled:
  assumes "valid_group_name name"
  shows "parse_group (''(?<'' @ name @ ''>'' @ class_text @ ''+)'' @ rest) = Some (Cap name WordDot, rest)"
proof -
  define s where "s = ''(?<'' @ name @ ''>'' @ class_text @ ''+)'' @ rest"
  have no_gt: "\<And>c. c \<in> set name \<Longrightarrow> c \<noteq> CHR ''>''"
    using valid_group_name_no_gt [OF assms] by auto
  have starts: "startsWith s ''(?<''"
    by (simp add: s_def startsWith_def)
  have name: "takeWhile (\<lambda>c. c \<noteq> CHR ''>'') (drop 3 s) = name"
    using no_gt by (simp add: s_def)
  have after: "drop (3 + length name) s = ''>'' @ class_text @ ''+)'' @ rest"
    by (simp add: s_def numeral_3_eq_3)
  have atom: "parse_atom (class_text @ ''+)'' @ rest) = Some (WordDot, ''+)'' @ rest)"
    by (simp add: parse_atom_def class_text_def startsWith_def)
  have "parse_group s = Some (Cap name WordDot, rest)"
    unfolding parse_group_def Let_def name after
    using starts assms atom by (simp add: startsWith_def)
  then show ?thesis by (simp add: s_def)
qed

lemma parse_items_group:
  assumes "valid_group_name name"
  shows "parse_items (''(?<'' @ name @ ''>'' @ class_text @ ''+)'' @ rest) =
           map_option ((#) (Cap name WordDot)) (parse_items rest)"
  using parse_group_compiled [OF assms, of rest]
  by (subst parse_items.simps) simp

lemma group_names_literal: "group_names (map lit_item lit @ items) = group_names items"
  by (induction lit) (simp_all add: lit_item_def)

lemma RegExp_compiled:
  assumes "list_all plain_char pre" and "list_all plain_char post" and "valid_group_name name"
  shows "RegExp (''^'' @ pre @ ''(?<'' @ name @ ''>'' @ class_text @ ''+)'' @ post @ ''$'') =
           Some (Bol # map lit_item pre @ Cap name WordDot # map lit_item post @ [Eol])"
proof -
  have tail: "parse_items (post @ ''$'') = Some (map lit_item post @ [Eol])"
    using assms(2) by (simp add: parse_items_literal startsWith_def parse_items_Eol parse_items_Nil)
  have grp: "parse_items (''(?<'' @ name @ ''>'' @ class_text @ ''+)'' @ post @ ''$'') =
      Some (Cap name WordDot # map lit_item post @ [Eol])"
    using parse_items_group [OF assms(3), of "post @ ''$''"] tail by simp
  have "parse_items (pre @ ''(?<'' @ name @ ''>'' @ class_text @ ''+)'' @ post @ ''$'') =
      Some (map lit_item pre @ Cap name WordDot # map lit_item post @ [Eol])"
    using parse_items_literal [OF assms(1), of "''(?<'' @ name @ ''>'' @ class_text @ ''+)'' @ post @ ''$''"] grp
    by (simp add: startsWith_def)
  then have "parse_items (''^'' @ pre @ ''(?<'' @ name @ ''>'' @ class_text @ ''+)'' @ post @ ''$'') =
      Some (Bol # map lit_item pre @ Cap name WordDot # map lit_item post @ [Eol])"
    by (simp add: parse_items_Bol)
  then show ?thesis
    by (simp add: RegExp_def group_names_literal)
qed

lemma atom_ok_lit_item: "lit_item c = Once a \<Longrightarrow> atom_ok a c"
  by (auto simp: lit_item_def code_def split: if_splits)

lemma m_items_literal:
  "m_items (map lit_item lit @ items) pos (lit @ s) groups = m_items items (pos + length lit) s groups"
proof (induction lit arbitrary: pos)
  case Nil
  then show ?case by simp
next
  case (Cons c lit)
  obtain a where a: "lit_item c = Once a" by (simp add: lit_item_def)
  with atom_ok_lit_item [OF a] Cons show ?case by simp
qed

lemma m_items_literal_end: "m_items (map lit_item lit @ [Eol]) pos lit groups = Some groups"
  using m_items_literal [of lit "[Eol]" pos "[]" groups] by simp

lemma takeWhile_value:
  assumes "list_all is_word_dot v" and "\<not> (\<exists>c cs. s = c # cs \<and> is_word_dot c)"
  shows "takeWhile is_word_dot (v @ s) = v"
proof -
  have "takeWhile is_word_dot s = []" using assms(2) by (cases s) auto
  with assms(1) show ?thesis by (simp add: list_all_iff)
qed

lemma m_items_Cap_value:
  assumes "list_all is_word_dot v" and "v \<noteq> []"
      and "\<not> (\<exists>c cs. s = c # cs \<and> is_word_dot c)"
      and "m_items items (pos + length v) s (groups @ [(name, v)]) = Some g"
  shows "m_items (Cap name WordDot # items) pos (v @ s) groups = Some g"
proof -
  obtain k where k: "length v = Suc k" using assms(2) by (cases v) auto
  have "takeWhile (atom_ok WordDot) (v @ s) = v"
    using takeWhile_value [OF assms(1,3)] by (simp add: atom_ok.simps [abs_def])
  then show ?thesis using assms(4) k by simp
qed

lemma m_items_Cap_empty:
  assumes "\<not> (\<exists>c cs. s = c # cs \<and> is_word_dot c)"
  shows "m_items (Cap name WordDot # items) pos s groups = None"
proof -
  have "takeWhile (atom_ok WordDot) s = []" using assms by (cases s) auto
  then show ?thesis by simp
qed

lemma exec_from_Bol_later: "exec_from (Bol # items) (Suc pos) s = None"
  by (induction s arbitrary: pos) simp_all

lemma exec_Bol: "exec (Bol # items) s = m_items items 0 s []"
  by (cases s) (simp_all add: exec_def exec_from_Bol_later split: option.splits)

lemma find_param_Some:
  "find_param t = Some (pre, name, post) \<Longrightarrow>
     t = pre @ '':'' @ name @ post \<and> name \<noteq> [] \<and> list_all is_word_dot name
     \<and> \<not> (\<exists>c cs. post = c # cs \<and> is_word_dot c)"
proof (induction t arbitrary: pre)
  case Nil
  then show ?case by simp
next
  case (Cons c t)
  show ?case
  proof (cases "c = CHR '':'' \<and> takeWhile is_word_dot t \<noteq> []")
    case True
    with Cons.prems have eqs: "pre = []" "name = takeWhile is_word_dot t" "post = dropWhile is_word_dot t"
      by simp_all
    have "\<not> (\<exists>c cs. dropWhile is_word_dot t = c # cs \<and> is_word_dot c)"
      by (metis hd_dropWhile list.sel(1) list.distinct(1))
    with True eqs show ?thesis
      by (auto simp: list_all_iff dest: set_takeWhileD)
  next
    case False
    with Cons.prems obtain pre' where "find_param t = Some (pre', name, post)" "pre = c # pre'"
      by (auto split: option.splits)
    with Cons.IH [of pre'] show ?thesis by simp
  qed
qed

lemma pattern_source_param:
  "find_param t = Some (pre, name, post) \<Longrightarrow>
   pattern_source t = ''^'' @ pre @ ''(?<'' @ name @ ''>'' @ class_text @ ''+)'' @ post @ ''$''"
  by (simp add: pattern_source_def replace_param_def)

lemma compiled_param_match:
  assumes "find_param t = Some (pre, name, post)"
      and "list_all plain_char pre" and "list_all plain_char post" and "valid_group_name name"
  shows "RegExp (pattern_source t) = Some (Bol # map lit_item pre @ Cap name WordDot # map lit_item post @ [Eol])"
    and "v \<noteq> [] \<Longrightarrow> list_all is_word_dot v \<Longrightarrow>
         exec (Bol # map lit_item pre @ Cap name WordDot # map lit_item post @ [Eol]) (pre @ v @ post) = Some [(name, v)]"
    and "exec (Bol # map lit_item pre @ Cap name WordDot # map lit_item post @ [Eol]) (pre @ post) = None"
proof -
  note fp = find_param_Some [OF assms(1)]
  show "RegExp (pattern_source t) = Some (Bol # map lit_item pre @ Cap name WordDot # map lit_item post @ [Eol])"
    using RegExp_compiled [OF assms(2,3,4)] pattern_source_param [OF assms(1)] by simp
  show "exec (Bol # map lit_item pre @ Cap name WordDot # map lit_item post @ [Eol]) (pre @ v @ post) = Some [(name, v)]"
    if v: "v \<noteq> []" "list_all is_word_dot v"
  proof -
    have "m_items (Cap name WordDot # map lit_item post @ [Eol]) (0 + length pre) (v @ post) [] = Some [(name, v)]"
      using fp v by (intro m_items_Cap_value) (simp_all add: m_items_literal_end)
    then show ?thesis by (simp add: exec_Bol m_items_literal)
  qed
  have "m_items (Cap name WordDot # map lit_item post @ [Eol]) (0 + length pre) post [] = None"
    using fp by (intro m_items_Cap_empty) simp
  then show "exec (Bol # map lit_item pre @ Cap name WordDot # map lit_item post @ [Eol]) (pre @ post) = None"
    using m_items_literal [of pre "Cap name WordDot # map lit_item post @ [Eol]" 0 post "[]"]
    by (simp add: exec_Bol)
qed

text \<open>
  C4, as the claim states it, fails: the template \<^verbatim>\<open>/a+b/:id\<close> has one parameter
  segment; its pattern is \<^verbatim>\<open>^/a+b/(?<id>[\w.]+)$\<close>, in which the \<^verbatim>\<open>+\<close> of the
  template repeats the \<^verbatim>\<open>a\<close>, and the path \<^verbatim>\<open>/a+b/7\<close>, the text of the template with
  \<^verbatim>\<open>7\<close> for the parameter, does not match.
\<close>

theorem metachar_template_refuted:
  "find_param ''/a+b/:id'' = Some (''/a+b/'', ''id'', [])
   \<and> RegExp (pattern_source ''/a+b/:id'') =
        Some [Bol, Once (Lit (CHR ''/'')), Many (Lit (CHR ''a'')), Once (Lit (CHR ''b'')),
              Once (Lit (CHR ''/'')), Cap ''id'' WordDot, Eol]
   \<and> exec [Bol, Once (Lit (CHR ''/'')), Many (Lit (CHR ''a'')), Once (Lit (CHR ''b'')),
              Once (Lit (CHR ''/'')), Cap ''id'' WordDot, Eol] (''/a+b/'' @ ''7'' @ []) = None"
  by code_simp

text \<open>
  C4, amended. Let the template have the parameter segment \<^verbatim>\<open>:name\<close> and no other,
  between the texts \<open>pre\<close> and \<open>post\<close>; let \<open>name\<close> be a name that a group may
  bear (an identifier: no dot in it, no digit at its start), and let \<open>pre\<close> and
  \<open>post\<close> hold no character of the syntax of regular expressions but the dot. Then
  the template compiles; for every non-empty \<open>v\<close> of characters of \<^verbatim>\<open>[A-Za-z0-9_.]\<close>
  the pattern matches the path \<open>pre @ v @ post\<close> with \<open>name\<close> bound to \<open>v\<close> and
  nothing else bound; and it does not match \<open>pre @ post\<close>.
\<close>

theorem one_param_match:
  assumes "find_param template = Some (pre, name, post)" and "find_param post = None"
      and "valid_group_name name"
      and "list_all plain_char pre" and "list_all plain_char post"
      and "v \<noteq> []" and "list_all is_word_dot v"
  shows "template = pre @ '':'' @ name @ post
     \<and> (\<exists>r. RegExp (pattern_source template) = Some r
            \<and> exec r (pre @ v @ post) = Some [(name, v)]
            \<and> exec r (pre @ post) = None)"
  using compiled_param_match [OF assms(1,4,5,3)] find_param_Some [OF assms(1)] assms(6,7)
  by simp

theorem one_param_match_witness:
  "find_param ''/students/:id/change'' = Some (''/students/'', ''id'', ''/change'')
   \<and> find_param ''/change'' = None
   \<and> valid_group_name ''id''
   \<and> list_all plain_char ''/students/'' \<and> list_all plain_char ''/change''
   \<and> list_all is_word_dot ''a.b_7''
   \<and> (\<exists>r. RegExp (pattern_source ''/students/:id/change'') = Some r
          \<and> exec r ''/students/a.b_7/change'' = Some [(''id'', ''a.b_7'')]
          \<and> exec r ''/students//change'' = None)"
proof -
  have a: "find_param ''/students/:id/change'' = Some (''/students/'', ''id'', ''/change'')"
    by code_simp
  have a': "find_param ''/change'' = None" by code_simp
  have b: "valid_group_name ''id''" by code_simp
  have c: "list_all plain_char ''/students/''" by code_simp
  have d: "list_all plain_char ''/change''" by code_simp
  have e: "''a.b_7'' \<noteq> []" by simp
  have f: "list_all is_word_dot ''a.b_7''" by code_simp
  show ?thesis
    using one_param_match [OF a a' b c d e f] a a' b c d f by simp
qed

text \<open>
  C6. Let \<^verbatim>\<open>:name\<close> be the first parameter segment of the template, between \<open>pre\<close>
  and \<open>post\<close>, and let \<open>post\<close> hold a further parameter segment \<^verbatim>\<open>:name2\<close>. The
  source of the pattern is \<open>pre\<close>, the group of \<open>name\<close>, and \<open>post\<close> as the
  template has it, with \<^verbatim>\<open>:name2\<close> in it: only the first segment became a group.
  Where the pattern is within the syntax modelled, it has the one group \<open>name\<close>,
  the characters of \<open>post\<close> are matched as they stand, and a path that has \<open>post\<close>
  as it stands matches with \<open>name\<close> bound and nothing else.
\<close>

theorem later_params_stay_literal:
  assumes "find_param template = Some (pre, name, post)"
      and "find_param post = Some (pre2, name2, post2)"
  shows "pattern_source template =
           ''^'' @ pre @ ''(?<'' @ name @ ''>'' @ class_text @ ''+)'' @ post @ ''$''
     \<and> post = pre2 @ '':'' @ name2 @ post2
     \<and> (valid_group_name name \<and> list_all plain_char pre \<and> list_all plain_char post \<longrightarrow>
          RegExp (pattern_source template) =
            Some (Bol # map lit_item pre @ Cap name WordDot # map lit_item post @ [Eol])
          \<and> (\<forall>v. v \<noteq> [] \<and> list_all is_word_dot v \<longrightarrow>
                exec (Bol # map lit_item pre @ Cap name WordDot # map lit_item post @ [Eol])
                  (pre @ v @ post) = Some [(name, v)]))"
proof -
  have src: "pattern_source template =
           ''^'' @ pre @ ''(?<'' @ name @ ''>'' @ class_text @ ''+)'' @ post @ ''$''"
    by (rule pattern_source_param [OF assms(1)])
  have post: "post = pre2 @ '':'' @ name2 @ post2"
    using find_param_Some [OF assms(2)] by simp
  have sem: "RegExp (pattern_source template) =
            Some (Bol # map lit_item pre @ Cap name WordDot # map lit_item post @ [Eol])
          \<and> (\<forall>v. v \<noteq> [] \<and> list_all is_word_dot v \<longrightarrow>
                exec (Bol # map lit_item pre @ Cap name WordDot # map lit_item post @ [Eol])
                  (pre @ v @ post) = Some [(name, v)])"
    if "valid_group_name name" "list_all plain_char pre" "list_all plain_char post"
    using compiled_param_match(1,2) [OF assms(1) that(2,3,1)] by blast
  show ?thesis using src post sem by blast
qed

theorem later_params_stay_literal_witness:
  "find_param ''/a/:x/b/:y'' = Some (''/a/'', ''x'', ''/b/:y'')
   \<and> find_param ''/b/:y'' = Some (''/b/'', ''y'', [])
   \<and> pattern_source ''/a/:x/b/:y'' = ''^/a/(?<x>'' @ class_text @ ''+)/b/:y$''
   \<and> (\<exists>r. RegExp (pattern_source ''/a/:x/b/:y'') = Some r
        \<and> group_names r = [''x'']
        \<and> exec r ''/a/1/b/:y'' = Some [(''x'', ''1'')]
        \<and> exec r ''/a/1/b/2'' = None)"
proof -
  have a: "find_param ''/a/:x/b/:y'' = Some (''/a/'', ''x'', ''/b/:y'')" by code_simp
  have b: "find_param ''/b/:y'' = Some (''/b/'', ''y'', [])" by code_simp
  have c: "valid_group_name ''x'' \<and> list_all plain_char ''/a/'' \<and> list_all plain_char ''/b/:y''"
    by code_simp
  have d: "''1'' \<noteq> [] \<and> list_all is_word_dot ''1''" by code_simp
  have e: "exec (Bol # map lit_item ''/a/'' @ Cap ''x'' WordDot # map lit_item ''/b/:y'' @ [Eol]) ''/a/1/b/2'' = None"
    by code_simp
  have g: "group_names (Bol # map lit_item ''/a/'' @ Cap ''x'' WordDot # map lit_item ''/b/:y'' @ [Eol]) = [''x'']"
    by code_simp
  from later_params_stay_literal [OF a b] c d
  have "pattern_source ''/a/:x/b/:y'' = ''^'' @ ''/a/'' @ ''(?<'' @ ''x'' @ ''>'' @ class_text @ ''+)'' @ ''/b/:y'' @ ''$''"
    and "RegExp (pattern_source ''/a/:x/b/:y'') =
       Some (Bol # map lit_item ''/a/'' @ Cap ''x'' WordDot # map lit_item ''/b/:y'' @ [Eol])"
    and "exec (Bol # map lit_item ''/a/'' @ Cap ''x'' WordDot # map lit_item ''/b/:y'' @ [Eol])
                  (''/a/'' @ ''1'' @ ''/b/:y'') = Some [(''x'', ''1'')]"
    by blast+
  with a b e g show ?thesis by simp
qed

end
